theory Spec2Isabelle
  imports Complex_Main "HOL-Library.Sublist"
begin

section \<open>The browser form (frontend/src/app/page.tsx)\<close>

text \<open>
  The repository ships two revisions of the page component. They agree on
  \<open>handleFileChange\<close>, \<open>handleSubmit\<close> and the result panel; the later one adds the
  drag-and-drop handlers and the \<open>isDragging\<close> flag. The model follows the later revision,
  which contains the earlier one.

  Strings are modelled as \<open>string\<close>. File names are taken over the ASCII alphabet, where
  \<open>toLowerCase\<close> maps \<open>A\<close>..\<open>Z\<close> to \<open>a\<close>..\<open>z\<close> and leaves every other character alone.
\<close>

subsection \<open>Data\<close>

text \<open>
  A JavaScript number is an IEEE 754 double: a finite value, one of the two infinities,
  or NaN. \<open>Finite x\<close> carries the exact value of a finite double. The two zeros are one
  value here: nothing the page does with a number tells them apart.
\<close>

datatype number = Finite real | PosInfinity | NegInfinity | NaN

text \<open>
  A field that is declared \<open>T | null\<close> and read from a response body: the body is stored
  as it arrives, so besides \<open>null\<close> and a value the field can be \<open>undefined\<close>, when the
  body has no such key.
\<close>

datatype 'a nullable = Undefined | Null | Present 'a

record PredictionResult =
  emotion :: string
  confidence :: "number nullable"
  model_used :: string
  processing_time_ms :: number
  timestamp :: string

datatype File = File (name: string) (bytes: "nat list")

datatype ApiStatus = Checking | Online | Offline

record State =
  models :: "string list"
  selectedModel :: string
  audioFile :: "File option"
  chorusStart :: string
  chorusEnd :: string
  isLoading :: bool
  result :: "PredictionResult option"
  error :: string
  apiStatus :: ApiStatus
  isDragging :: bool

text \<open>The values of the \<open>useState\<close> hooks when the component mounts.\<close>

definition initial_state :: State where
  "initial_state =
     \<lparr>models = [], selectedModel = [], audioFile = None, chorusStart = [], chorusEnd = [],
      isLoading = False, result = None, error = [], apiStatus = Checking,
      isDragging = False\<rparr>"

subsection \<open>String operations of the host language\<close>

definition upper_letters :: string where
  "upper_letters = ''ABCDEFGHIJKLMNOPQRSTUVWXYZ''"

definition lower_letters :: string where
  "lower_letters = ''abcdefghijklmnopqrstuvwxyz''"

definition toLowerCase_char :: "char \<Rightarrow> char" where
  "toLowerCase_char c =
     (case map_of (zip upper_letters lower_letters) c of Some l \<Rightarrow> l | None \<Rightarrow> c)"

definition toLowerCase :: "string \<Rightarrow> string" where
  "toLowerCase s = map toLowerCase_char s"

definition toUpperCase_char :: "char \<Rightarrow> char" where
  "toUpperCase_char c =
     (case map_of (zip lower_letters upper_letters) c of Some u \<Rightarrow> u | None \<Rightarrow> c)"

text \<open>
  \<open>String.prototype.endsWith(searchString)\<close> with no end position: the search string has
  to fit, and the last \<open>length t\<close> characters of \<open>s\<close> have to be \<open>t\<close>.
\<close>

definition endsWith :: "string \<Rightarrow> string \<Rightarrow> bool" where
  "endsWith s t = (length t \<le> length s \<and> drop (length s - length t) s = t)"

text \<open>The test both file handlers apply to \<open>file.name\<close>.\<close>

definition is_audio_name :: "string \<Rightarrow> bool" where
  "is_audio_name n = (endsWith (toLowerCase n) ''.mp3'' \<or> endsWith (toLowerCase n) ''.wav'')"

text \<open>
  A string \<open>s\<close> is a case variant of \<open>t\<close> (given in lower case) when it has the same
  length and each character is the one of \<open>t\<close> or its upper-case form.
\<close>

definition case_variant :: "string \<Rightarrow> string \<Rightarrow> bool" where
  "case_variant s t = list_all2 (\<lambda>c l. c = l \<or> c = toUpperCase_char l) s t"

subsection \<open>File selection and drop\<close>

text \<open>
  The argument is the event's file list (\<open>e.target.files\<close>, \<open>e.dataTransfer.files\<close>); a
  missing or empty list leaves the state as it is.
\<close>

definition handleFileChange :: "File list \<Rightarrow> State \<Rightarrow> State" where
  "handleFileChange files s =
     (case files of
        [] \<Rightarrow> s
      | file # _ \<Rightarrow>
          if endsWith (toLowerCase (name file)) ''.mp3'' \<or> endsWith (toLowerCase (name file)) ''.wav''
          then s\<lparr>audioFile := Some file, error := []\<rparr>
          else s\<lparr>error := ''Please upload a valid MP3 or WAV file'', audioFile := None\<rparr>)"

definition handleDragEnter :: "State \<Rightarrow> State" where
  "handleDragEnter s = s\<lparr>isDragging := True\<rparr>"

definition handleDragLeave :: "State \<Rightarrow> State" where
  "handleDragLeave s = s\<lparr>isDragging := False\<rparr>"

definition handleDrop :: "File list \<Rightarrow> State \<Rightarrow> State" where
  "handleDrop files s =
     (let s1 = s\<lparr>isDragging := False\<rparr> in
      case files of
        [] \<Rightarrow> s1
      | file # _ \<Rightarrow>
          if endsWith (toLowerCase (name file)) ''.mp3'' \<or> endsWith (toLowerCase (name file)) ''.wav''
          then s1\<lparr>audioFile := Some file, error := []\<rparr>
          else s1\<lparr>error := ''Please upload a valid MP3 or WAV file'', audioFile := None\<rparr>)"

subsection \<open>Submitting the form\<close>

text \<open>
  The multipart body is an ordered list of named parts, as \<open>FormData.append\<close> builds it.
\<close>

datatype FormValue = FileValue File | TextValue string

type_synonym FormData = "(string \<times> FormValue) list"

text \<open>
  What a rejected \<open>axios.post\<close> carries: the handler reads \<open>err.response?.data?.detail\<close>,
  and each of the three links may be missing.
\<close>

datatype ErrorBody = ErrorBody (detail: "string option")

datatype ErrorResponse = ErrorResponse (data: "ErrorBody option")

datatype AxiosError = AxiosError (response: "ErrorResponse option")

definition error_detail :: "AxiosError \<Rightarrow> string option" where
  "error_detail err =
     (case response err of
        None \<Rightarrow> None
      | Some r \<Rightarrow> (case data r of None \<Rightarrow> None | Some b \<Rightarrow> detail b))"

text \<open>\<open>x || d\<close> on a string that may be undefined: the empty string is falsy too.\<close>

definition or_default :: "string option \<Rightarrow> string \<Rightarrow> string" where
  "or_default x d = (case x of None \<Rightarrow> d | Some v \<Rightarrow> if v = [] then d else v)"

definition buildFormData :: "File \<Rightarrow> State \<Rightarrow> FormData" where
  "buildFormData file s =
     [(''file'', FileValue file), (''model_name'', TextValue (selectedModel s))]
     @ (if chorusStart s \<noteq> [] then [(''chorus_start'', TextValue (chorusStart s))] else [])
     @ (if chorusEnd s \<noteq> [] then [(''chorus_end'', TextValue (chorusEnd s))] else [])"

text \<open>
  \<open>post\<close> stands for \<open>axios.post\<close> on \<open>/api/predict\<close>: \<open>Inr\<close> is the body of a fulfilled
  request, \<open>Inl\<close> the error of a rejected one. The handler returns the state after its
  \<open>finally\<close> block together with the requests it has sent, in order.
\<close>

definition handleSubmit ::
  "(FormData \<Rightarrow> AxiosError + PredictionResult) \<Rightarrow> State \<Rightarrow> State \<times> FormData list" where
  "handleSubmit post s =
     (case audioFile s of
        None \<Rightarrow> (s\<lparr>error := ''Please select an audio file''\<rparr>, [])
      | Some file \<Rightarrow>
          if selectedModel s = [] then (s\<lparr>error := ''Please select a model''\<rparr>, [])
          else
            let s1 = s\<lparr>isLoading := True, error := [], result := None\<rparr>;
                formData = buildFormData file s;
                s2 = (case post formData of
                        Inr body \<Rightarrow> s1\<lparr>result := Some body\<rparr>
                      | Inl err \<Rightarrow>
                          s1\<lparr>error := or_default (error_detail err)
                                         ''Prediction failed. Please try again.''\<rparr>)
            in (s2\<lparr>isLoading := False\<rparr>, [formData]))"

subsection \<open>Arithmetic and formatting of the host language\<close>

text \<open>
  Rounding a real to the nearest double, ties to the even significand. \<open>binade\<close> is the
  binary exponent of the value, not below that of the subnormal range; \<open>ulp\<close> is the
  spacing of the doubles there. A result of magnitude \<open>2^1024\<close> is an overflow.
\<close>

definition binade :: "real \<Rightarrow> int" where
  "binade x = max \<lfloor>log 2 \<bar>x\<bar>\<rfloor> (- 1022)"

definition ulp :: "real \<Rightarrow> real" where
  "ulp x =
     (if 52 \<le> binade x then 2 ^ nat (binade x - 52) else 1 / 2 ^ nat (52 - binade x))"

definition round_half_even :: "real \<Rightarrow> int" where
  "round_half_even m =
     (let f = \<lfloor>m\<rfloor>; d = m - of_int f
      in if d < 1 / 2 then f else if 1 / 2 < d then f + 1 else if even f then f else f + 1)"

definition to_double :: "real \<Rightarrow> number" where
  "to_double x =
     (if x = 0 then Finite 0
      else
        let q = of_int (round_half_even (x / ulp x)) * ulp x
        in if 2 ^ 1024 \<le> \<bar>q\<bar> then (if 0 < x then PosInfinity else NegInfinity)
           else Finite q)"

text \<open>The number \<open>JSON.parse\<close> reads from a decimal literal of the response body.\<close>

definition json_number :: "real \<Rightarrow> number" where
  "json_number x = to_double x"

text \<open>The product \<open>c * 100\<close> of a number with the literal 100.\<close>

definition times100 :: "number \<Rightarrow> number" where
  "times100 c =
     (case c of
        Finite x \<Rightarrow> to_double (x * 100)
      | PosInfinity \<Rightarrow> PosInfinity
      | NegInfinity \<Rightarrow> NegInfinity
      | NaN \<Rightarrow> NaN)"

text \<open>
  What a formatting call returns: a text that is written out here; the text the host
  prints for a number in exponent notation (its digits are not written out), followed by
  the given characters; or a \<open>RangeError\<close>.
\<close>

datatype formatted = Digits string | HostToString real string | RangeError

definition followed_by :: "formatted \<Rightarrow> string \<Rightarrow> formatted" where
  "followed_by t s =
     (case t of
        Digits d \<Rightarrow> Digits (d @ s)
      | HostToString x u \<Rightarrow> HostToString x (u @ s)
      | RangeError \<Rightarrow> RangeError)"

definition digit_char :: "nat \<Rightarrow> char" where
  "digit_char d = ''0123456789'' ! (d mod 10)"

fun show_nat :: "nat \<Rightarrow> string" where
  "show_nat n = (if n < 10 then [digit_char n] else show_nat (n div 10) @ [digit_char n])"

definition pad_left :: "nat \<Rightarrow> string \<Rightarrow> string" where
  "pad_left w ds = replicate (w - length ds) CHR ''0'' @ ds"

text \<open>
  The decimal digits of \<open>toFixed\<close> for a finite value below \<open>10^21\<close>: the sign is split
  off, the magnitude is rounded to the nearest multiple of \<open>10^-f\<close> (the larger one on a
  tie) and printed with exactly \<open>f\<close> decimals.
\<close>

definition fixed_digits :: "nat \<Rightarrow> real \<Rightarrow> string" where
  "fixed_digits f x =
     (let n = nat \<lfloor>\<bar>x\<bar> * 10 ^ f + 1 / 2\<rfloor>;
          digits = show_nat (n div 10 ^ f)
                   @ (if f = 0 then [] else ''.'' @ pad_left f (show_nat (n mod 10 ^ f)))
      in if x < 0 then ''-'' @ digits else digits)"

text \<open>
  \<open>Number.prototype.toFixed(f)\<close>: more than 100 decimals are a \<open>RangeError\<close>; NaN and
  the infinities print their names; a magnitude of \<open>10^21\<close> or more is printed as the
  host prints the number; every other value gets its fixed digits.
\<close>

definition toFixed :: "nat \<Rightarrow> number \<Rightarrow> formatted" where
  "toFixed f v =
     (if 100 < f then RangeError
      else
        case v of
          NaN \<Rightarrow> Digits ''NaN''
        | PosInfinity \<Rightarrow> Digits ''Infinity''
        | NegInfinity \<Rightarrow> Digits ''-Infinity''
        | Finite x \<Rightarrow> if 10 ^ 21 \<le> \<bar>x\<bar> then HostToString x [] else Digits (fixed_digits f x))"

subsection \<open>The result panel\<close>

text \<open>
  The confidence block of the panel, rendered under the guard
  \<open>result.confidence !== null\<close>: the width of the bar is the product \<open>confidence * 100\<close>
  (the style appends the percent sign), and the label is \<open>toFixed(1)\<close> of the same
  product followed by the percent sign. An \<open>undefined\<close> confidence passes the guard, and
  its product with 100 is NaN.
\<close>

record ConfidenceView =
  bar_width_percent :: number
  percent_label :: formatted

definition confidence_section :: "PredictionResult \<Rightarrow> ConfidenceView option" where
  "confidence_section r =
     (case confidence r of
        Null \<Rightarrow> None
      | Undefined \<Rightarrow>
          Some \<lparr>bar_width_percent = NaN, percent_label = followed_by (toFixed 1 NaN) ''%''\<rparr>
      | Present c \<Rightarrow>
          Some \<lparr>bar_width_percent = times100 c,
                 percent_label = followed_by (toFixed 1 (times100 c)) ''%''\<rparr>)"

subsection \<open>Concrete forms and servers\<close>

text \<open>
  A form that is ready to submit with only the start of the chorus filled in, a server
  that rejects every request with a detail message, and a server that answers every
  request with a confidence of 1.5.
\<close>

definition one_sided_form :: State where
  "one_sided_form =
     initial_state\<lparr>selectedModel := ''KNN'', audioFile := Some (File ''clip.wav'' []),
       chorusStart := ''45.5''\<rparr>"

definition rejecting_server :: "FormData \<Rightarrow> AxiosError + PredictionResult" where
  "rejecting_server fd =
     Inl (AxiosError (Some (ErrorResponse (Some (ErrorBody (Some ''Model not found''))))))"



section \<open>Properties of the form\<close>

subsection \<open>Strings\<close>

lemma endsWith_suffix: "endsWith s t = suffix t s"
proof
  assume "endsWith s t"
  then have "s = take (length s - length t) s @ t"
    by (metis append_take_drop_id endsWith_def)
  then show "suffix t s"
    by (rule suffixI)
next
  assume "suffix t s"
  then obtain zs where "s = zs @ t"
    by (rule suffixE)
  then show "endsWith s t"
    by (simp add: endsWith_def)
qed

lemma toLowerCase_append: "toLowerCase (a @ b) = toLowerCase a @ toLowerCase b"
  by (simp add: toLowerCase_def)

lemma endsWith_append: "endsWith (a @ t) t"
  by (simp add: endsWith_def)

lemma is_audio_name_suffix:
  "is_audio_name n = (suffix ''.mp3'' (toLowerCase n) \<or> suffix ''.wav'' (toLowerCase n))"
  by (simp only: is_audio_name_def endsWith_suffix)

lemma toLowerCase_variant_mp3: "case_variant ext ''.mp3'' \<Longrightarrow> toLowerCase ext = ''.mp3''"
  by (auto simp: case_variant_def list_all2_Cons2 toLowerCase_def toLowerCase_char_def
      toUpperCase_char_def upper_letters_def lower_letters_def)

lemma toLowerCase_variant_wav: "case_variant ext ''.wav'' \<Longrightarrow> toLowerCase ext = ''.wav''"
  by (auto simp: case_variant_def list_all2_Cons2 toLowerCase_def toLowerCase_char_def
      toUpperCase_char_def upper_letters_def lower_letters_def)

lemmas string_defs =
  is_audio_name_def endsWith_def toLowerCase_def toLowerCase_char_def upper_letters_def
  lower_letters_def

subsection \<open>Choosing a file\<close>

lemma handleFileChange_Cons:
  "handleFileChange (f # fs) s =
     (if is_audio_name (name f) then s\<lparr>audioFile := Some f, error := []\<rparr>
      else s\<lparr>error := ''Please upload a valid MP3 or WAV file'', audioFile := None\<rparr>)"
  by (simp add: handleFileChange_def is_audio_name_def)

lemma handleDrop_Cons:
  "handleDrop (f # fs) s =
     (if is_audio_name (name f)
      then s\<lparr>isDragging := False, audioFile := Some f, error := []\<rparr>
      else s\<lparr>isDragging := False, error := ''Please upload a valid MP3 or WAV file'',
             audioFile := None\<rparr>)"
  by (simp add: handleDrop_def is_audio_name_def)

text \<open>
  Claim C2. For a selected or a dropped file, the file becomes the audio input exactly
  when its lower-cased name ends in \<open>.mp3\<close> or \<open>.wav\<close>. An accepted file is stored and
  the error is cleared; for any other file the stored file is set to null and the
  unsupported-format message is reported.
\<close>

theorem file_accepted_iff_audio_extension:
  "is_audio_name (name f)
     = (suffix ''.mp3'' (toLowerCase (name f)) \<or> suffix ''.wav'' (toLowerCase (name f)))
   \<and> audioFile (handleFileChange (f # fs) s) = (if is_audio_name (name f) then Some f else None)
   \<and> error (handleFileChange (f # fs) s)
       = (if is_audio_name (name f) then [] else ''Please upload a valid MP3 or WAV file'')
   \<and> audioFile (handleDrop (f # fs) s) = (if is_audio_name (name f) then Some f else None)
   \<and> error (handleDrop (f # fs) s)
       = (if is_audio_name (name f) then [] else ''Please upload a valid MP3 or WAV file'')"
proof -
  have "is_audio_name (name f)
     = (suffix ''.mp3'' (toLowerCase (name f)) \<or> suffix ''.wav'' (toLowerCase (name f)))"
    by (rule is_audio_name_suffix)
  then show ?thesis
    by (simp add: handleFileChange_Cons handleDrop_Cons)
qed

text \<open>
  Claim C9. The format check ignores case: a file whose name ends in any case variant of
  \<open>.mp3\<close> or \<open>.wav\<close> is accepted by both handlers, which store it and clear the error.
\<close>

theorem extension_check_ignores_case:
  assumes "case_variant ext ''.mp3'' \<or> case_variant ext ''.wav''"
  shows "audioFile (handleFileChange (File (stem @ ext) b # fs) s) = Some (File (stem @ ext) b)
       \<and> error (handleFileChange (File (stem @ ext) b # fs) s) = []
       \<and> audioFile (handleDrop (File (stem @ ext) b # fs) s) = Some (File (stem @ ext) b)
       \<and> error (handleDrop (File (stem @ ext) b # fs) s) = []"
proof -
  from assms have "toLowerCase ext = ''.mp3'' \<or> toLowerCase ext = ''.wav''"
    by (auto dest: toLowerCase_variant_mp3 toLowerCase_variant_wav)
  then have "is_audio_name (stem @ ext)"
    by (auto simp: is_audio_name_def toLowerCase_append endsWith_append)
  then show ?thesis
    by (simp add: handleFileChange_Cons handleDrop_Cons)
qed

theorem extension_check_ignores_case_witness:
  "case_variant ''.MP3'' ''.mp3''
   \<and> audioFile (handleFileChange [File ''SONG.MP3'' []] initial_state) = Some (File ''SONG.MP3'' [])
   \<and> case_variant ''.WAV'' ''.wav''
   \<and> audioFile (handleDrop [File ''track.WAV'' []] initial_state) = Some (File ''track.WAV'' [])"
proof -
  have a: "case_variant ''.MP3'' ''.mp3''" and b: "case_variant ''.WAV'' ''.wav''"
    by (simp_all add: case_variant_def toUpperCase_char_def upper_letters_def lower_letters_def)
  from a have a': "case_variant ''.MP3'' ''.mp3'' \<or> case_variant ''.MP3'' ''.wav''" ..
  from b have b': "case_variant ''.WAV'' ''.mp3'' \<or> case_variant ''.WAV'' ''.wav''" ..
  show ?thesis
    using a b extension_check_ignores_case [OF a', of "''SONG''" "[]" "[]" initial_state]
      extension_check_ignores_case [OF b', of "''track''" "[]" "[]" initial_state]
    by simp
qed

subsection \<open>Submitting\<close>

lemma or_default_nonempty: "d \<noteq> [] \<Longrightarrow> or_default x d \<noteq> []"
  by (simp add: or_default_def split: option.splits)

lemma handleSubmit_guarded:
  "audioFile s = None \<or> selectedModel s = [] \<Longrightarrow>
     snd (handleSubmit post s) = [] \<and> result (fst (handleSubmit post s)) = result s"
  by (auto simp: handleSubmit_def split: option.splits)

lemma handleSubmit_sent:
  "audioFile s = Some f \<Longrightarrow> selectedModel s \<noteq> [] \<Longrightarrow>
     snd (handleSubmit post s) = [buildFormData f s]"
  by (simp add: handleSubmit_def Let_def)

lemma handleSubmit_rejected:
  "audioFile s = Some f \<Longrightarrow> selectedModel s \<noteq> [] \<Longrightarrow> post (buildFormData f s) = Inl err \<Longrightarrow>
     fst (handleSubmit post s) =
       s\<lparr>isLoading := False, result := None,
         error := or_default (error_detail err) ''Prediction failed. Please try again.''\<rparr>"
  by (simp add: handleSubmit_def Let_def)

lemma handleSubmit_fulfilled:
  "audioFile s = Some f \<Longrightarrow> selectedModel s \<noteq> [] \<Longrightarrow> post (buildFormData f s) = Inr body \<Longrightarrow>
     fst (handleSubmit post s) = s\<lparr>isLoading := False, error := [], result := Some body\<rparr>"
  by (simp add: handleSubmit_def Let_def)

lemma submit_one_sided_form:
  "handleSubmit rejecting_server one_sided_form =
    (one_sided_form\<lparr>error := ''Model not found''\<rparr>,
     [[(''file'', FileValue (File ''clip.wav'' [])), (''model_name'', TextValue ''KNN''),
       (''chorus_start'', TextValue ''45.5'')]])"
  by (simp add: handleSubmit_def one_sided_form_def initial_state_def rejecting_server_def
      buildFormData_def or_default_def error_detail_def)

text \<open>
  Claim C6. A failed prediction leaves no result behind. When the handler has sent the
  request and the request is rejected, the stored result is null and the error message
  is not empty. A result that is stored after the handler is the body of the request it
  sent, which was fulfilled; the only other way is that the handler returned at one of
  its two guards without sending anything, and then the result is the one that was
  stored before.
\<close>

theorem failed_request_leaves_no_result:
  assumes "handleSubmit post s = (s', sent)"
  shows "(\<forall>fd err. fd \<in> set sent \<and> post fd = Inl err \<longrightarrow> result s' = None \<and> error s' \<noteq> [])
       \<and> (\<forall>r. result s' = Some r \<longrightarrow>
              (\<exists>fd. sent = [fd] \<and> post fd = Inr r) \<or> (sent = [] \<and> result s = Some r))"
proof (cases "audioFile s = None \<or> selectedModel s = []")
  case True
  with handleSubmit_guarded [OF True, of post] assms show ?thesis
    by simp
next
  case False
  then obtain f where f: "audioFile s = Some f" and m: "selectedModel s \<noteq> []"
    by auto
  from handleSubmit_sent [OF f m, of post] assms have sent: "sent = [buildFormData f s]"
    by simp
  show ?thesis
  proof (cases "post (buildFormData f s)")
    case (Inl err)
    have "fst (handleSubmit post s) =
       s\<lparr>isLoading := False, result := None,
         error := or_default (error_detail err) ''Prediction failed. Please try again.''\<rparr>"
      using f m Inl by (rule handleSubmit_rejected)
    with assms have "result s' = None" and "error s' \<noteq> []"
      by (auto simp: or_default_nonempty)
    with sent Inl show ?thesis
      by simp
  next
    case (Inr body)
    have "fst (handleSubmit post s) = s\<lparr>isLoading := False, error := [], result := Some body\<rparr>"
      using f m Inr by (rule handleSubmit_fulfilled)
    with assms have "result s' = Some body"
      by auto
    with sent Inr show ?thesis
      by simp
  qed
qed

theorem failed_request_leaves_no_result_witness:
  "snd (handleSubmit rejecting_server one_sided_form) = [buildFormData (File ''clip.wav'' []) one_sided_form]
   \<and> rejecting_server (buildFormData (File ''clip.wav'' []) one_sided_form)
       = Inl (AxiosError (Some (ErrorResponse (Some (ErrorBody (Some ''Model not found''))))))
   \<and> result (fst (handleSubmit rejecting_server one_sided_form)) = None
   \<and> error (fst (handleSubmit rejecting_server one_sided_form)) \<noteq> []"
proof -
  have run: "handleSubmit rejecting_server one_sided_form
      = (fst (handleSubmit rejecting_server one_sided_form),
         snd (handleSubmit rejecting_server one_sided_form))"
    by simp
  have "buildFormData (File ''clip.wav'' []) one_sided_form
      = [(''file'', FileValue (File ''clip.wav'' [])), (''model_name'', TextValue ''KNN''),
         (''chorus_start'', TextValue ''45.5'')]"
    by (simp add: buildFormData_def one_sided_form_def initial_state_def)
  then have sent: "snd (handleSubmit rejecting_server one_sided_form)
      = [buildFormData (File ''clip.wav'' []) one_sided_form]"
    by (simp only: submit_one_sided_form snd_conv)
  have rej: "rejecting_server (buildFormData (File ''clip.wav'' []) one_sided_form)
      = Inl (AxiosError (Some (ErrorResponse (Some (ErrorBody (Some ''Model not found''))))))"
    by (simp add: rejecting_server_def)
  from failed_request_leaves_no_result [OF run] sent rej
  have "result (fst (handleSubmit rejecting_server one_sided_form)) = None
      \<and> error (fst (handleSubmit rejecting_server one_sided_form)) \<noteq> []"
    by simp
  with sent rej show ?thesis
    by simp
qed

text \<open>
  Claim C10. The two chorus bounds travel independently. Once a file and a model are
  chosen, the handler sends one request; it carries \<open>chorus_start\<close> exactly when that
  field is a non-empty string, and \<open>chorus_end\<close> exactly when that field is. A request
  with only one of the two bounds is therefore sent whenever only one field is filled
  in.
\<close>

theorem chorus_bounds_sent_independently:
  assumes "audioFile s = Some f" and "selectedModel s \<noteq> []"
  shows "snd (handleSubmit post s) = [buildFormData f s]
       \<and> map_of (buildFormData f s) ''chorus_start''
           = (if chorusStart s = [] then None else Some (TextValue (chorusStart s)))
       \<and> map_of (buildFormData f s) ''chorus_end''
           = (if chorusEnd s = [] then None else Some (TextValue (chorusEnd s)))"
  using assms by (simp add: handleSubmit_sent buildFormData_def)

theorem chorus_bounds_sent_independently_witness:
  "audioFile one_sided_form = Some (File ''clip.wav'' [])
   \<and> selectedModel one_sided_form \<noteq> []
   \<and> snd (handleSubmit rejecting_server one_sided_form)
       = [[(''file'', FileValue (File ''clip.wav'' [])), (''model_name'', TextValue ''KNN''),
           (''chorus_start'', TextValue ''45.5'')]]
   \<and> map_of (buildFormData (File ''clip.wav'' []) one_sided_form) ''chorus_start''
       = Some (TextValue ''45.5'')
   \<and> map_of (buildFormData (File ''clip.wav'' []) one_sided_form) ''chorus_end'' = None"
proof -
  have f: "audioFile one_sided_form = Some (File ''clip.wav'' [])"
    and m: "selectedModel one_sided_form \<noteq> []"
    and a: "chorusStart one_sided_form = ''45.5''" and b: "chorusEnd one_sided_form = []"
    by (simp_all add: one_sided_form_def initial_state_def)
  from chorus_bounds_sent_independently [OF f m, of rejecting_server] f m a b
  show ?thesis
    by (simp add: submit_one_sided_form)
qed

subsection \<open>Doubles\<close>

lemma binade_eqI:
  assumes "2 powr real_of_int k \<le> \<bar>x\<bar>" and "\<bar>x\<bar> < 2 powr real_of_int (k + 1)"
    and "- 1022 \<le> k"
  shows "binade x = k"
proof -
  have "0 < (2::real) powr real_of_int k"
    by simp
  with assms(1) have pos: "0 < \<bar>x\<bar>"
    by linarith
  from assms(1,2) have "\<lfloor>log 2 \<bar>x\<bar>\<rfloor> = k"
    by (simp add: floor_log_eq_powr_iff [OF pos])
  with assms(3) show ?thesis
    by (simp add: binade_def)
qed




text \<open>
  The product is rounded as the host rounds it. The body literal \<open>0.0015\<close> is read as
  the double \<open>6917529027641082 / 2^62\<close>; its product with 100 rounds to a double just
  below 0.15, and the label is \<open>0.1%\<close>, where exact arithmetic would give \<open>0.2%\<close>.
\<close>

lemma binade_literal: "binade (3 / 2000) = - 10"
  by (rule binade_eqI) (simp_all add: powr_int powr_minus)

lemma json_number_literal: "json_number (3 / 2000) = Finite (6917529027641082 / 2 ^ 62)"
  by (simp add: json_number_def to_double_def ulp_def binade_literal round_half_even_def)

lemma binade_product: "binade (6917529027641082 / 2 ^ 62 * 100) = - 3"
  by (rule binade_eqI) (simp_all add: powr_int powr_minus)

lemma times100_literal:
  "times100 (Finite (6917529027641082 / 2 ^ 62)) = Finite (5404319552844595 / 2 ^ 55)"
  using binade_product
  by (simp add: times100_def to_double_def ulp_def round_half_even_def)

lemma toFixed_literal: "toFixed 1 (Finite (5404319552844595 / 2 ^ 55)) = Digits ''0.1''"
  by (simp add: toFixed_def fixed_digits_def pad_left_def digit_char_def)

lemma label_of_literal:
  "percent_label (the (confidence_section (r\<lparr>confidence := Present (json_number (3 / 2000))\<rparr>)))
     = Digits ''0.1%''"
proof -
  have "times100 (json_number (3 / 2000)) = Finite (5404319552844595 / 2 ^ 55)"
    by (simp only: json_number_literal times100_literal)
  then have "toFixed 1 (times100 (json_number (3 / 2000))) = Digits ''0.1''"
    by (simp only: toFixed_literal)
  then have "followed_by (toFixed 1 (times100 (json_number (3 / 2000)))) ''%'' = Digits ''0.1%''"
    by (simp add: followed_by_def)
  then show ?thesis
    by (simp add: confidence_section_def)
qed

subsection \<open>Confidence\<close>




end
